theory Spec2Isabelle
  imports Main
begin

text \<open>
  The requirements server keeps one interview session at a time under \<open>requirements/\<close>:
  a pointer file names the active session, each session folder holds its metadata record
  and transcripts, and a settings file holds the two question counts. \<open>dist/index.js\<close>
  holds two builds of the server. The earlier one (lines 1 to 476) has no settings and its
  status tool only reports; the later one (lines 476 to 1238) has settings and a status
  tool that asks one question per call. Both are modelled; where a definition has no
  \<open>legacy\<close> in its name it follows the later build.
\<close>

section \<open>Strings and the folder slug\<close>

text \<open>
  A JavaScript string is modelled as a list of code units below 256 (the Latin-1 range),
  the type \<open>string\<close> of HOL. On that range \<open>toLowerCase\<close> adds 32 to \<open>A-Z\<close> and to the
  accented capitals \<open>0xC0-0xDE\<close> (the multiplication sign \<open>0xD7\<close> apart), and the
  regular expression class \<open>\s\<close> holds tab, line feed, vertical tab, form feed,
  carriage return, space and the no-break space \<open>0xA0\<close>.
\<close>

definition toLowerCase_char :: "char \<Rightarrow> char" where
  "toLowerCase_char c =
     (let n = (of_char c :: nat)
      in if (65 \<le> n \<and> n \<le> 90) \<or> (192 \<le> n \<and> n \<le> 222 \<and> n \<noteq> 215)
         then char_of (n + 32) else c)"

definition toLowerCase :: "string \<Rightarrow> string" where
  "toLowerCase s = map toLowerCase_char s"

definition is_space :: "char \<Rightarrow> bool" where
  "is_space c = ((of_char c :: nat) \<in> {9, 10, 11, 12, 13, 32, 160})"

definition is_lower_alnum :: "char \<Rightarrow> bool" where
  "is_lower_alnum c =
     (let n = (of_char c :: nat) in (97 \<le> n \<and> n \<le> 122) \<or> (48 \<le> n \<and> n \<le> 57))"

text \<open>The class \<open>[a-z0-9\s-]\<close>: the characters that \<open>/[^a-z0-9\s-]/g\<close> leaves in place.\<close>

definition slug_char :: "char \<Rightarrow> bool" where
  "slug_char c = (is_lower_alnum c \<or> is_space c \<or> c = CHR ''-'')"

text \<open>\<open>.replace(/[^a-z0-9\s-]/g, '')\<close>: every character outside the class is deleted.\<close>

definition strip_non_slug :: "string \<Rightarrow> string" where
  "strip_non_slug s = filter slug_char s"

text \<open>
  \<open>.replace(/\s+/g, '-')\<close>: scanning from the left, a whitespace character starts a
  match, the greedy \<open>+\<close> takes the whole run, the run is replaced by one hyphen and the
  scan goes on behind it.
\<close>

function replace_ws_runs :: "string \<Rightarrow> string" where
  "replace_ws_runs [] = []"
| "replace_ws_runs (c # cs) =
     (if is_space c then CHR ''-'' # replace_ws_runs (dropWhile is_space cs)
      else c # replace_ws_runs cs)"
  by pat_completeness auto
termination
  by (relation "measure length") (auto simp: length_dropWhile_le less_Suc_eq_le)

text \<open>The slug of \<open>createTimestampFolder\<close>; \<open>.slice(0, 30)\<close> keeps the first 30 code units.\<close>

definition slug :: "string \<Rightarrow> string" where
  "slug name = take 30 (replace_ws_runs (strip_non_slug (toLowerCase name)))"

text \<open>
  The slug as the specification words it: lower-case, drop what is outside
  \<open>[a-z0-9\s-]\<close>, turn every maximal whitespace run into one hyphen, keep 30 characters.
  The run is followed with a flag that says whether the previous character was whitespace.
\<close>

fun hyphenate :: "bool \<Rightarrow> string \<Rightarrow> string" where
  "hyphenate in_run [] = []"
| "hyphenate in_run (c # cs) =
     (if is_space c then (if in_run then hyphenate True cs else CHR ''-'' # hyphenate True cs)
      else c # hyphenate False cs)"

definition slug_spec :: "string \<Rightarrow> string" where
  "slug_spec name =
     take 30 (hyphenate False (filter (\<lambda>c. is_lower_alnum c \<or> is_space c \<or> c = CHR ''-'')
       (map toLowerCase_char name)))"


section \<open>Text helpers\<close>

definition nl :: char where
  "nl = CHR 0x0A"

function show_nat :: "nat \<Rightarrow> string" where
  "show_nat n = (if n < 10 then [char_of (48 + n)] else show_nat (n div 10) @ [char_of (48 + n mod 10)])"
  by pat_completeness auto
termination
  by (relation "measure id") auto

text \<open>A number inside a template string: its decimal digits, with a minus sign below zero.\<close>

definition show_int :: "int \<Rightarrow> string" where
  "show_int i = (if i < 0 then CHR ''-'' # show_nat (nat (- i)) else show_nat (nat i))"

text \<open>\<open>xs.join(sep)\<close>.\<close>

fun join :: "string \<Rightarrow> string list \<Rightarrow> string" where
  "join sep [] = []"
| "join sep [x] = x"
| "join sep (x # y # ys) = x @ sep @ join sep (y # ys)"

text \<open>\<open>s.replace(c, r)\<close> with a one-character string pattern: the first occurrence only.\<close>

fun replace_first :: "char \<Rightarrow> string \<Rightarrow> string \<Rightarrow> string" where
  "replace_first c r [] = []"
| "replace_first c r (x # xs) = (if x = c then r @ xs else x # replace_first c r xs)"

text \<open>\<open>s.includes(p)\<close>: \<open>p\<close> occurs in \<open>s\<close> as a contiguous piece.\<close>

fun str_includes :: "string \<Rightarrow> string \<Rightarrow> bool" where
  "str_includes [] p = (p = [])"
| "str_includes (c # cs) p = (take (length p) (c # cs) = p \<or> str_includes cs p)"

text \<open>\<open>folderName.split('-').slice(-1)[0]\<close>: what follows the last hyphen.\<close>

definition last_segment :: "string \<Rightarrow> string" where
  "last_segment s = rev (takeWhile (\<lambda>c. c \<noteq> CHR ''-'') (rev s))"

text \<open>
  \<open>xs.slice(0, end)\<close>: a negative \<open>end\<close> counts from the end of the array, and the
  result stays within the array.
\<close>

definition slice0 :: "'a list \<Rightarrow> int \<Rightarrow> 'a list" where
  "slice0 xs e =
     (let len = int (length xs);
          final = (if e < 0 then max (len + e) 0 else min e len)
      in take (nat final) xs)"

text \<open>\<open>xs[i]\<close>: \<open>undefined\<close> (here \<open>None\<close>) outside the array.\<close>

definition at_index :: "'a list \<Rightarrow> int \<Rightarrow> 'a option" where
  "at_index xs i = (if 0 \<le> i \<and> i < int (length xs) then Some (xs ! nat i) else None)"

text \<open>
  \<open>createTimestampFolder\<close>. The clock is an input: \<open>now\<close> is what
  \<open>new Date().toISOString()\<close> returns during the call.
\<close>

definition createTimestampFolder :: "string \<Rightarrow> string \<Rightarrow> string" where
  "createTimestampFolder now name =
     (let timestamp = replace_first (CHR '':'') [] (replace_first (CHR ''T'') ''-'' (take 16 now))
      in timestamp @ ''-'' @ slug name)"

section \<open>Session records\<close>

datatype status = Active | Completed | Incomplete

datatype phase = Discovery | Context | Detail | Complete

record settings =
  discoveryQuestions :: int
  expertQuestions :: int

record counter =
  answered :: int
  total :: int

record progress =
  discovery :: counter
  detail :: counter

text \<open>
  The metadata object of \<open>metadata.json\<close>. The field \<open>id\<close> of the source is
  \<open>session_id\<close> here; \<open>endedAt\<close> is absent until the session is ended, and
  \<open>settings\<close> is absent in metadata written by the earlier build of the server.
\<close>

record metadata =
  session_id :: string
  started :: string
  lastUpdated :: string
  endedAt :: "string option"
  status :: status
  phase :: phase
  progress :: progress
  contextFiles :: "string list"
  relatedFeatures :: "string list"
  settings :: "settings option"

section \<open>The requirements directory\<close>

text \<open>
  The files under \<open>requirements/\<close> that the tools read and write. A text file is its
  content; a JSON file is either the record whose document it holds (\<open>Doc\<close>) or text
  that \<open>JSON.parse\<close> rejects (\<open>NotJson\<close>); \<open>None\<close> is a file that does not exist.
  Counts and counters are integers, and a JSON document of another shape than the record
  is outside the model, as are storage faults other than a missing file or folder
  (permissions, a full disk).

  In a session folder \<open>requirements/<name>/\<close>: \<open>initial_request\<close> is
  \<open>00-initial-request.md\<close>, \<open>discovery_questions\<close> is \<open>01-discovery-questions.md\<close>,
  \<open>discovery_answers\<close> is \<open>02-discovery-answers.md\<close>, \<open>detail_answers\<close> is
  \<open>05-detail-answers.md\<close> and \<open>metadata_json\<close> is \<open>metadata.json\<close>. In the store:
  \<open>current_requirement\<close> is the pointer file \<open>.current-requirement\<close>, \<open>mcp_settings\<close>
  is \<open>.mcp-settings.json\<close>, \<open>index_md\<close> is \<open>index.md\<close>, and \<open>folders\<close> gives the
  session folder of a name, when there is one.
\<close>

datatype 'a json_file = NotJson | Doc 'a

record stored_settings =
  stored_discoveryQuestions :: "int option"
  stored_expertQuestions :: "int option"

record session_folder =
  initial_request :: "string option"
  discovery_questions :: "string option"
  discovery_answers :: "string option"
  detail_answers :: "string option"
  metadata_json :: "metadata json_file option"

record store =
  current_requirement :: "string option"
  mcp_settings :: "stored_settings json_file option"
  index_md :: "string option"
  folders :: "string \<Rightarrow> session_folder option"

datatype error = SyntaxError | TypeError | ElicitationError | ENOENT

definition empty_folder :: session_folder where
  "empty_folder = \<lparr>initial_request = None, discovery_questions = None,
     discovery_answers = None, detail_answers = None, metadata_json = None\<rparr>"

text \<open>\<open>ensureDir\<close> of a session folder: \<open>mkdir\<close> with \<open>recursive\<close> keeps what is there.\<close>

definition ensureDir :: "string \<Rightarrow> store \<Rightarrow> store" where
  "ensureDir name st =
     (case folders st name of
        None \<Rightarrow> st\<lparr>folders := (folders st)(name \<mapsto> empty_folder)\<rparr>
      | Some d \<Rightarrow> st)"

text \<open>\<open>fs.writeFile\<close> of a file inside a session folder; it throws when the folder is missing.\<close>

definition writeFile :: "string \<Rightarrow> (session_folder \<Rightarrow> session_folder) \<Rightarrow> store \<Rightarrow> error + store" where
  "writeFile name upd st =
     (case folders st name of
        None \<Rightarrow> Inl ENOENT
      | Some d \<Rightarrow> Inr (st\<lparr>folders := (folders st)(name \<mapsto> upd d)\<rparr>))"

text \<open>\<open>fileExists\<close> and the content of a file inside a session folder.\<close>

definition session_file :: "store \<Rightarrow> string \<Rightarrow> (session_folder \<Rightarrow> 'a option) \<Rightarrow> 'a option" where
  "session_file st name sel = (case folders st name of None \<Rightarrow> None | Some d \<Rightarrow> sel d)"

text \<open>
  \<open>getCurrentRequirement\<close> returns the pointer file's text, or \<open>null\<close>. Its callers
  test the result for truthiness, and the empty string is falsy: \<open>active_session\<close> is the
  session name they go on with.
\<close>

definition getCurrentRequirement :: "store \<Rightarrow> string option" where
  "getCurrentRequirement st = current_requirement st"

definition active_session :: "store \<Rightarrow> string option" where
  "active_session st =
     (case getCurrentRequirement st of
        None \<Rightarrow> None
      | Some cur \<Rightarrow> if cur = [] then None else Some cur)"

definition setCurrentRequirement :: "string \<Rightarrow> store \<Rightarrow> store" where
  "setCurrentRequirement folderName st = st\<lparr>current_requirement := Some folderName\<rparr>"

definition clearCurrentRequirement :: "store \<Rightarrow> store" where
  "clearCurrentRequirement st = st\<lparr>current_requirement := None\<rparr>"

section \<open>Settings\<close>

definition DEFAULT_SETTINGS :: settings where
  "DEFAULT_SETTINGS = \<lparr>discoveryQuestions = 5, expertQuestions = 5\<rparr>"

text \<open>\<open>loadSettings\<close>: the defaults, overridden key by key by the stored record.\<close>

definition loadSettings :: "store \<Rightarrow> settings" where
  "loadSettings st =
     (case mcp_settings st of
        None \<Rightarrow> DEFAULT_SETTINGS
      | Some NotJson \<Rightarrow> DEFAULT_SETTINGS
      | Some (Doc parsed) \<Rightarrow>
          \<lparr>discoveryQuestions =
             (case stored_discoveryQuestions parsed of
                None \<Rightarrow> discoveryQuestions DEFAULT_SETTINGS | Some v \<Rightarrow> v),
           expertQuestions =
             (case stored_expertQuestions parsed of
                None \<Rightarrow> expertQuestions DEFAULT_SETTINGS | Some v \<Rightarrow> v)\<rparr>)"

text \<open>\<open>saveSettings\<close> writes the record it is given; it checks nothing.\<close>

definition saveSettings :: "settings \<Rightarrow> store \<Rightarrow> store" where
  "saveSettings s st =
     st\<lparr>mcp_settings := Some (Doc \<lparr>stored_discoveryQuestions = Some (discoveryQuestions s),
                                    stored_expertQuestions = Some (expertQuestions s)\<rparr>)\<rparr>"

section \<open>Questions\<close>

record question =
  question :: string
  defaultValue :: bool
  reason :: string

definition allQuestions :: "question list" where
  "allQuestions =
    [\<lparr>question = ''Will users interact with this feature through a visual interface?'',
      defaultValue = True, reason = ''most features have some UI component''\<rparr>,
     \<lparr>question = ''Does this feature need to work on mobile devices?'',
      defaultValue = True, reason = ''mobile-first is standard practice''\<rparr>,
     \<lparr>question = ''Will this feature handle sensitive or private user data?'',
      defaultValue = True, reason = ''better to be secure by default''\<rparr>,
     \<lparr>question = ''Do users currently have a workaround for this problem?'',
      defaultValue = False, reason = ''assuming this solves a new need''\<rparr>,
     \<lparr>question = ''Will this feature need to work offline?'',
      defaultValue = False, reason = ''most features require connectivity''\<rparr>,
     \<lparr>question = ''Will this feature require real-time updates or notifications?'',
      defaultValue = False, reason = ''real-time features add complexity''\<rparr>,
     \<lparr>question = ''Does this feature need to integrate with external APIs or services?'',
      defaultValue = False, reason = ''internal features are more common''\<rparr>,
     \<lparr>question = ''Will this feature need to scale to handle many concurrent users?'',
      defaultValue = True, reason = ''better to plan for scale upfront''\<rparr>,
     \<lparr>question = ''Does this feature require user authentication or authorization?'',
      defaultValue = True, reason = ''most features need some level of access control''\<rparr>,
     \<lparr>question = ''Will this feature need to maintain audit logs or activity history?'',
      defaultValue = False, reason = ''audit logs are typically for specific use cases''\<rparr>]"

definition generateDiscoveryQuestions :: "int \<Rightarrow> question list" where
  "generateDiscoveryQuestions count = slice0 allQuestions count"

text \<open>The expert questions of the status tool, before \<open>.slice(0, metadata.progress.detail.total)\<close>.\<close>

definition expertQuestions_all :: "question list" where
  "expertQuestions_all =
    [\<lparr>question = ''Should this feature be accessible to all user roles?'',
      defaultValue = False, reason = ''role-based access is more common for new features''\<rparr>,
     \<lparr>question = ''Will this feature require database schema changes?'',
      defaultValue = True, reason = ''most new features need new data structures''\<rparr>,
     \<lparr>question = ''Should this feature have comprehensive error handling and validation?'',
      defaultValue = True, reason = ''robust error handling is a best practice''\<rparr>,
     \<lparr>question = ''Will this feature need to be backwards compatible with existing APIs?'',
      defaultValue = True, reason = ''maintaining API compatibility is usually required''\<rparr>,
     \<lparr>question = ''Should this feature include comprehensive logging and monitoring?'',
      defaultValue = True, reason = ''observability is critical for production features''\<rparr>]"

text \<open>
  The elicitation request of \<open>askQuestion\<close> is answered by the client: it accepts with
  or without an answer, declines or cancels, or the request fails and \<open>elicitInput\<close>
  throws. \<open>askQuestion\<close> returns the answer of an accepting client and the default
  otherwise; \<open>None\<close> is the exception.
\<close>

datatype elicit_result = Accept "bool option" | Decline | Cancel | ElicitFails

definition askQuestion :: "elicit_result \<Rightarrow> bool \<Rightarrow> bool option" where
  "askQuestion result dflt =
     (case result of
        ElicitFails \<Rightarrow> None
      | Accept (Some answer) \<Rightarrow> Some answer
      | _ \<Rightarrow> Some dflt)"

definition yes_no :: "bool \<Rightarrow> string" where
  "yes_no b = (if b then ''Yes'' else ''No'')"

section \<open>Tool results\<close>

datatype end_action = EndComplete | EndIncomplete | EndDelete

text \<open>
  What a tool returns, by the branch that returns it; the wording of the message is left
  out. \<open>isError\<close> is the flag of the same name on the returned object.
\<close>

datatype response =
    AlreadyActive string
  | Started string settings
  | StartedLegacy string
  | NoActiveSession
  | MetadataNotFound string
  | QuestionAnswered int bool
  | DiscoveryComplete bool
  | ContextComplete
  | ExpertQuestionAnswered int bool
  | ExpertComplete bool
  | SessionStatus metadata
  | SessionDeleted string
  | SessionEnded string end_action
  | CurrentSettings settings
  | SettingsUpdated settings
  | ErrorResult error

definition isError :: "response \<Rightarrow> bool" where
  "isError r = (case r of MetadataNotFound _ \<Rightarrow> True | ErrorResult _ \<Rightarrow> True | _ \<Rightarrow> False)"

section \<open>requirements-start\<close>

definition initialRequestContent :: "string \<Rightarrow> string \<Rightarrow> string \<Rightarrow> string" where
  "initialRequestContent now request folderName =
     ''# Initial Request'' @ [nl, nl] @ ''**Timestamp:** '' @ now @ [nl, nl] @
     ''**Request:** '' @ request @ [nl, nl] @ ''---'' @ [nl, nl] @
     ''This is the starting point for requirements gathering session: '' @ folderName @ [nl]"

definition questionsContent :: "string \<Rightarrow> settings \<Rightarrow> question list \<Rightarrow> string" where
  "questionsContent now settings' qs =
     ''# Discovery Questions'' @ [nl, nl] @ ''**Generated:** '' @ now @ [nl] @
     ''**Total Questions:** '' @ show_int (discoveryQuestions settings') @ [nl, nl] @
     join [nl] (map (\<lambda>(index, q). ''## Q'' @ show_nat (index + 1) @ '': '' @ question q @ [nl] @
                      ''**Default if unknown:** '' @ yes_no (defaultValue q) @
                      '' ('' @ reason q @ '')'' @ [nl])
                (enumerate 0 qs))"

text \<open>
  The handler of \<open>requirements-start\<close> in the build that has settings
  (\<open>index.js\<close>, lines 570 to 636).
\<close>

definition requirements_start :: "string \<Rightarrow> string \<Rightarrow> store \<Rightarrow> response \<times> store" where
  "requirements_start now request st =
     (case active_session st of
        Some currentRequirement \<Rightarrow> (AlreadyActive currentRequirement, st)
      | None \<Rightarrow>
          (let folderName = createTimestampFolder now request;
               st1 = ensureDir folderName st;
               settings' = loadSettings st1;
               metadata =
                 \<lparr>session_id = last_segment folderName,
                  started = now,
                  lastUpdated = now,
                  endedAt = None,
                  status = Active,
                  phase = Discovery,
                  progress =
                    \<lparr>discovery = \<lparr>answered = 0, total = discoveryQuestions settings'\<rparr>,
                     detail = \<lparr>answered = 0, total = expertQuestions settings'\<rparr>\<rparr>,
                  contextFiles = [],
                  relatedFeatures = [],
                  settings = Some settings'\<rparr>
           in case writeFile folderName
                     (\<lambda>d. d\<lparr>initial_request := Some (initialRequestContent now request folderName)\<rparr>) st1 of
                Inl e \<Rightarrow> (ErrorResult e, st1)
              | Inr st2 \<Rightarrow>
                  (case writeFile folderName (\<lambda>d. d\<lparr>metadata_json := Some (Doc metadata)\<rparr>) st2 of
                     Inl e \<Rightarrow> (ErrorResult e, st2)
                   | Inr st3 \<Rightarrow>
                       (let st4 = setCurrentRequirement folderName st3;
                            discoveryQuestions' = generateDiscoveryQuestions (discoveryQuestions settings')
                        in case writeFile folderName
                                  (\<lambda>d. d\<lparr>discovery_questions :=
                                            Some (questionsContent now settings' discoveryQuestions')\<rparr>) st4 of
                             Inl e \<Rightarrow> (ErrorResult e, st4)
                           | Inr st5 \<Rightarrow> (Started folderName settings', st5)))))"

text \<open>
  The handler of \<open>requirements-start\<close> in the earlier build (\<open>index.js\<close>, lines 72 to
  130), which has no settings: the totals are the constants 5 and 0 and no question file
  is written.
\<close>

definition requirements_start_legacy :: "string \<Rightarrow> string \<Rightarrow> store \<Rightarrow> response \<times> store" where
  "requirements_start_legacy now request st =
     (case active_session st of
        Some currentRequirement \<Rightarrow> (AlreadyActive currentRequirement, st)
      | None \<Rightarrow>
          (let folderName = createTimestampFolder now request;
               st1 = ensureDir folderName st;
               metadata =
                 \<lparr>session_id = last_segment folderName,
                  started = now,
                  lastUpdated = now,
                  endedAt = None,
                  status = Active,
                  phase = Discovery,
                  progress =
                    \<lparr>discovery = \<lparr>answered = 0, total = 5\<rparr>,
                     detail = \<lparr>answered = 0, total = 0\<rparr>\<rparr>,
                  contextFiles = [],
                  relatedFeatures = [],
                  settings = None\<rparr>
           in case writeFile folderName
                     (\<lambda>d. d\<lparr>initial_request := Some (initialRequestContent now request folderName)\<rparr>) st1 of
                Inl e \<Rightarrow> (ErrorResult e, st1)
              | Inr st2 \<Rightarrow>
                  (case writeFile folderName (\<lambda>d. d\<lparr>metadata_json := Some (Doc metadata)\<rparr>) st2 of
                     Inl e \<Rightarrow> (ErrorResult e, st2)
                   | Inr st3 \<Rightarrow> (StartedLegacy folderName, setCurrentRequirement folderName st3))))"

section \<open>requirements-status\<close>

definition answerEntry :: "int \<Rightarrow> question \<Rightarrow> bool \<Rightarrow> string" where
  "answerEntry currentQuestionIndex currentQuestion answer =
     ''## Q'' @ show_int (currentQuestionIndex + 1) @ '': '' @ question currentQuestion @ [nl] @
     ''**Answer:** '' @ yes_no answer @ [nl] @
     ''**Reasoning:** '' @ reason currentQuestion @ [nl, nl]"

text \<open>The branch of the status tool that asks the next discovery question.\<close>

definition answer_discovery ::
  "string \<Rightarrow> elicit_result \<Rightarrow> string \<Rightarrow> metadata \<Rightarrow> store \<Rightarrow> response \<times> store" where
  "answer_discovery now el currentRequirement metadata st =
     (let currentQuestionIndex = answered (discovery (progress metadata));
          settings' = (case settings metadata of Some s \<Rightarrow> s | None \<Rightarrow> loadSettings st);
          discoveryQuestions' = generateDiscoveryQuestions (discoveryQuestions settings')
      in case at_index discoveryQuestions' currentQuestionIndex of
           None \<Rightarrow> (ErrorResult TypeError, st)
         | Some currentQuestion \<Rightarrow>
             (case askQuestion el (defaultValue currentQuestion) of
                None \<Rightarrow> (ErrorResult ElicitationError, st)
              | Some answer \<Rightarrow>
                  (let metadata1 = metadata
                         \<lparr>progress := (progress metadata)
                            \<lparr>discovery := (discovery (progress metadata))
                               \<lparr>answered := answered (discovery (progress metadata)) + 1\<rparr>\<rparr>,
                          lastUpdated := now\<rparr>;
                       answersContent =
                         (case session_file st currentRequirement discovery_answers of
                            Some t \<Rightarrow> t
                          | None \<Rightarrow> ''# Discovery Answers'' @ [nl, nl] @ ''**Started:** '' @ now @ [nl, nl])
                         @ answerEntry currentQuestionIndex currentQuestion answer
                   in case writeFile currentRequirement
                             (\<lambda>d. d\<lparr>discovery_answers := Some answersContent\<rparr>) st of
                        Inl e \<Rightarrow> (ErrorResult e, st)
                      | Inr st1 \<Rightarrow>
                          (case writeFile currentRequirement
                                  (\<lambda>d. d\<lparr>metadata_json := Some (Doc metadata1)\<rparr>) st1 of
                             Inl e \<Rightarrow> (ErrorResult e, st1)
                           | Inr st2 \<Rightarrow>
                               if answered (discovery (progress metadata1))
                                    \<ge> total (discovery (progress metadata1))
                               then (case writeFile currentRequirement
                                            (\<lambda>d. d\<lparr>metadata_json :=
                                                      Some (Doc (metadata1\<lparr>phase := Context\<rparr>))\<rparr>) st2 of
                                       Inl e \<Rightarrow> (ErrorResult e, st2)
                                     | Inr st3 \<Rightarrow> (DiscoveryComplete answer, st3))
                               else (QuestionAnswered currentQuestionIndex answer, st2)))))"

text \<open>The branch that leaves the context phase.\<close>

definition leave_context ::
  "string \<Rightarrow> string \<Rightarrow> metadata \<Rightarrow> store \<Rightarrow> response \<times> store" where
  "leave_context now currentRequirement metadata st =
     (case writeFile currentRequirement
             (\<lambda>d. d\<lparr>metadata_json := Some (Doc (metadata\<lparr>phase := Detail, lastUpdated := now\<rparr>))\<rparr>) st of
        Inl e \<Rightarrow> (ErrorResult e, st)
      | Inr st1 \<Rightarrow> (ContextComplete, st1))"

text \<open>The branch that asks the next expert question.\<close>

definition answer_detail ::
  "string \<Rightarrow> elicit_result \<Rightarrow> string \<Rightarrow> metadata \<Rightarrow> store \<Rightarrow> response \<times> store" where
  "answer_detail now el currentRequirement metadata st =
     (let currentQuestionIndex = answered (detail (progress metadata));
          expertQuestions' = slice0 expertQuestions_all (total (detail (progress metadata)))
      in case at_index expertQuestions' currentQuestionIndex of
           None \<Rightarrow> (ErrorResult TypeError, st)
         | Some currentQuestion \<Rightarrow>
             (case askQuestion el (defaultValue currentQuestion) of
                None \<Rightarrow> (ErrorResult ElicitationError, st)
              | Some answer \<Rightarrow>
                  (let metadata1 = metadata
                         \<lparr>progress := (progress metadata)
                            \<lparr>detail := (detail (progress metadata))
                               \<lparr>answered := answered (detail (progress metadata)) + 1\<rparr>\<rparr>,
                          lastUpdated := now\<rparr>;
                       detailAnswersContent =
                         (case session_file st currentRequirement detail_answers of
                            Some t \<Rightarrow> t
                          | None \<Rightarrow> ''# Expert Question Answers'' @ [nl, nl] @ ''**Started:** '' @ now @ [nl, nl])
                         @ answerEntry currentQuestionIndex currentQuestion answer
                   in case writeFile currentRequirement
                             (\<lambda>d. d\<lparr>detail_answers := Some detailAnswersContent\<rparr>) st of
                        Inl e \<Rightarrow> (ErrorResult e, st)
                      | Inr st1 \<Rightarrow>
                          (case writeFile currentRequirement
                                  (\<lambda>d. d\<lparr>metadata_json := Some (Doc metadata1)\<rparr>) st1 of
                             Inl e \<Rightarrow> (ErrorResult e, st1)
                           | Inr st2 \<Rightarrow>
                               if answered (detail (progress metadata1))
                                    \<ge> total (detail (progress metadata1))
                               then (case writeFile currentRequirement
                                            (\<lambda>d. d\<lparr>metadata_json :=
                                                      Some (Doc (metadata1\<lparr>phase := Complete,
                                                                           status := Completed\<rparr>))\<rparr>) st2 of
                                       Inl e \<Rightarrow> (ErrorResult e, st2)
                                     | Inr st3 \<Rightarrow> (ExpertComplete answer, st3))
                               else (ExpertQuestionAnswered currentQuestionIndex answer, st2)))))"

text \<open>
  The handler of \<open>requirements-status\<close> in the build that drives the interview
  (\<open>index.js\<close>, lines 638 to 833): one call is one step of the interview.
\<close>

definition requirements_status :: "string \<Rightarrow> elicit_result \<Rightarrow> store \<Rightarrow> response \<times> store" where
  "requirements_status now el st =
     (case active_session st of
        None \<Rightarrow> (NoActiveSession, st)
      | Some currentRequirement \<Rightarrow>
          (case session_file st currentRequirement metadata_json of
             None \<Rightarrow> (MetadataNotFound currentRequirement, st)
           | Some NotJson \<Rightarrow> (ErrorResult SyntaxError, st)
           | Some (Doc metadata) \<Rightarrow>
               if phase metadata = Discovery
                  \<and> answered (discovery (progress metadata)) < total (discovery (progress metadata))
               then answer_discovery now el currentRequirement metadata st
               else if phase metadata = Context
               then leave_context now currentRequirement metadata st
               else if phase metadata = Detail
                  \<and> answered (detail (progress metadata)) < total (detail (progress metadata))
               then answer_detail now el currentRequirement metadata st
               else (SessionStatus metadata, st)))"

text \<open>
  The handler of \<open>requirements-status\<close> in the earlier build (\<open>index.js\<close>, lines 132 to
  202): it reports and writes nothing.
\<close>

definition requirements_status_legacy :: "store \<Rightarrow> response \<times> store" where
  "requirements_status_legacy st =
     (case active_session st of
        None \<Rightarrow> (NoActiveSession, st)
      | Some currentRequirement \<Rightarrow>
          (case session_file st currentRequirement metadata_json of
             None \<Rightarrow> (MetadataNotFound currentRequirement, st)
           | Some NotJson \<Rightarrow> (ErrorResult SyntaxError, st)
           | Some (Doc metadata) \<Rightarrow> (SessionStatus metadata, st)))"

section \<open>requirements-end\<close>

text \<open>
  The two status marks of the index lie outside the 8-bit range; they stand here as
  their UTF-8 bytes. \<open>date\<close> is what \<open>new Date().toLocaleDateString()\<close> returns.
\<close>

definition statusEmoji :: "end_action \<Rightarrow> string" where
  "statusEmoji action =
     (if action = EndComplete then [CHR 0xE2, CHR 0x9C, CHR 0x85]
      else [CHR 0xE2, CHR 0x9A, CHR 0xA0, CHR 0xEF, CHR 0xB8, CHR 0x8F])"

definition statusText :: "end_action \<Rightarrow> string" where
  "statusText action = (if action = EndComplete then ''Completed'' else ''Incomplete'')"

definition requirements_end ::
  "string \<Rightarrow> string \<Rightarrow> end_action \<Rightarrow> store \<Rightarrow> response \<times> store" where
  "requirements_end now date action st =
     (case active_session st of
        None \<Rightarrow> (NoActiveSession, st)
      | Some currentRequirement \<Rightarrow>
          if action = EndDelete
          then (SessionDeleted currentRequirement,
                clearCurrentRequirement (st\<lparr>folders := (folders st)(currentRequirement := None)\<rparr>))
          else
            (case (case session_file st currentRequirement metadata_json of
                     None \<Rightarrow> Inr st
                   | Some NotJson \<Rightarrow> Inl SyntaxError
                   | Some (Doc metadata) \<Rightarrow>
                       writeFile currentRequirement
                         (\<lambda>d. d\<lparr>metadata_json := Some (Doc (metadata
                                  \<lparr>status := (if action = EndComplete then Completed else Incomplete),
                                   lastUpdated := now,
                                   endedAt := Some now\<rparr>))\<rparr>) st) of
               Inl e \<Rightarrow> (ErrorResult e, st)
             | Inr st1 \<Rightarrow>
                 (let indexContent =
                        (case index_md st1 of
                           Some t \<Rightarrow> t
                         | None \<Rightarrow> ''# Requirements Index'' @ [nl, nl] @
                             ''This file tracks all requirements gathering sessions.'' @ [nl, nl]);
                      newEntry = ''- '' @ statusEmoji action @ '' **'' @ currentRequirement @ ''** - '' @
                                 statusText action @ '' ('' @ date @ '')'' @ [nl];
                      st2 = (if \<not> str_includes indexContent currentRequirement
                             then st1\<lparr>index_md := Some (indexContent @ newEntry)\<rparr> else st1)
                  in (SessionEnded currentRequirement action, clearCurrentRequirement st2))))"

section \<open>requirements-settings\<close>

datatype settings_action = ActGet | ActSet

text \<open>
  The input schema of the tool gives each count as \<open>z.number().min(1).max(20).optional()\<close>;
  the server calls the handler only with arguments that pass it.
\<close>

definition count_schema :: "int option \<Rightarrow> bool" where
  "count_schema v = (case v of None \<Rightarrow> True | Some n \<Rightarrow> 1 \<le> n \<and> n \<le> 20)"

definition requirements_settings ::
  "settings_action \<Rightarrow> int option \<Rightarrow> int option \<Rightarrow> store \<Rightarrow> response \<times> store" where
  "requirements_settings action discoveryQuestions' expertQuestions' st =
     (case action of
        ActGet \<Rightarrow> (CurrentSettings (loadSettings st), st)
      | ActSet \<Rightarrow>
          (let currentSettings = loadSettings st;
               newSettings =
                 \<lparr>discoveryQuestions =
                    (case discoveryQuestions' of
                       Some v \<Rightarrow> v | None \<Rightarrow> discoveryQuestions currentSettings),
                  expertQuestions =
                    (case expertQuestions' of
                       Some v \<Rightarrow> v | None \<Rightarrow> expertQuestions currentSettings)\<rparr>
           in (SettingsUpdated newSettings, saveSettings newSettings st)))"

section \<open>Calls and sessions\<close>

text \<open>
  A call of one of the tools, with what the environment supplies to it: the clock, the
  locale date and the client's answer to the elicitation.
\<close>

datatype command =
    Start string
  | StartLegacy string
  | Status elicit_result
  | StatusLegacy
  | End end_action
  | Settings settings_action "int option" "int option"

fun exec :: "string \<times> string \<Rightarrow> command \<Rightarrow> store \<Rightarrow> response \<times> store" where
  "exec (now, date) (Start request) st = requirements_start now request st"
| "exec (now, date) (StartLegacy request) st = requirements_start_legacy now request st"
| "exec (now, date) (Status el) st = requirements_status now el st"
| "exec (now, date) StatusLegacy st = requirements_status_legacy st"
| "exec (now, date) (End action) st = requirements_end now date action st"
| "exec (now, date) (Settings action d e) st = requirements_settings action d e st"

text \<open>A sequence of calls of the status tool, each with its clock reading and answer.\<close>

fun advance_all :: "(string \<times> elicit_result) list \<Rightarrow> store \<Rightarrow> store" where
  "advance_all [] st = st"
| "advance_all ((now, el) # calls) st = advance_all calls (snd (requirements_status now el st))"

text \<open>The metadata record of a session folder, when the folder holds one that parses.\<close>

definition session_metadata :: "store \<Rightarrow> string \<Rightarrow> metadata option" where
  "session_metadata st name =
     (case session_file st name metadata_json of
        Some (Doc metadata) \<Rightarrow> Some metadata
      | _ \<Rightarrow> None)"

text \<open>
  The edges of the phase chain, with their conditions on the record after the step:
  \<open>discovery\<close> to \<open>context\<close> with every discovery question answered, \<open>context\<close> to
  \<open>detail\<close>, \<open>detail\<close> to \<open>complete\<close> with every expert question answered.
\<close>

definition phase_edge :: "metadata \<Rightarrow> metadata \<Rightarrow> bool" where
  "phase_edge m m' =
     ((phase m = Discovery \<and> phase m' = Context
         \<and> answered (discovery (progress m')) = total (discovery (progress m')))
      \<or> (phase m = Context \<and> phase m' = Detail)
      \<or> (phase m = Detail \<and> phase m' = Complete
         \<and> answered (detail (progress m')) = total (detail (progress m'))))"

text \<open>The metadata record of the active session.\<close>

definition active_metadata :: "store \<Rightarrow> metadata option" where
  "active_metadata st =
     (case active_session st of
        None \<Rightarrow> None
      | Some currentRequirement \<Rightarrow> session_metadata st currentRequirement)"

text \<open>
  What one call of the status tool may do to the metadata record of the active session:
  nothing; or answer one discovery question, staying in \<open>discovery\<close> or, with the last
  one, going to \<open>context\<close>; or go from \<open>context\<close> to \<open>detail\<close>; or answer one expert
  question, staying in \<open>detail\<close> or, with the last one, going to \<open>complete\<close>. The totals
  stay as they are.
\<close>

definition interview_step :: "metadata \<Rightarrow> metadata \<Rightarrow> bool" where
  "interview_step m m' =
     (total (discovery (progress m')) = total (discovery (progress m))
      \<and> total (detail (progress m')) = total (detail (progress m))
      \<and> (m' = m
         \<or> (phase m = Discovery
             \<and> answered (discovery (progress m)) < total (discovery (progress m))
             \<and> answered (discovery (progress m')) = answered (discovery (progress m)) + 1
             \<and> answered (detail (progress m')) = answered (detail (progress m))
             \<and> (phase m' = Discovery
                   \<and> answered (discovery (progress m')) < total (discovery (progress m'))
                 \<or> phase m' = Context
                   \<and> answered (discovery (progress m')) = total (discovery (progress m'))))
         \<or> (phase m = Context \<and> phase m' = Detail
             \<and> answered (discovery (progress m')) = answered (discovery (progress m))
             \<and> answered (detail (progress m')) = answered (detail (progress m)))
         \<or> (phase m = Detail
             \<and> answered (detail (progress m)) < total (detail (progress m))
             \<and> answered (detail (progress m')) = answered (detail (progress m)) + 1
             \<and> answered (discovery (progress m')) = answered (discovery (progress m))
             \<and> (phase m' = Detail
                   \<and> answered (detail (progress m')) < total (detail (progress m'))
                 \<or> phase m' = Complete
                   \<and> answered (detail (progress m')) = total (detail (progress m'))))))"

section \<open>Example states\<close>

definition empty_store :: store where
  "empty_store = \<lparr>current_requirement = None, mcp_settings = None, index_md = None,
     folders = Map.empty\<rparr>"

text \<open>A pointer file that names a session whose folder is gone.\<close>

definition dangling_store :: store where
  "dangling_store = empty_store\<lparr>current_requirement := Some ''2025-07-04-0915-add-dark-mode''\<rparr>"

text \<open>A settings file that was edited by hand to a count above 20.\<close>

definition oversized_store :: store where
  "oversized_store = empty_store\<lparr>mcp_settings :=
     Some (Doc \<lparr>stored_discoveryQuestions = Some 50, stored_expertQuestions = None\<rparr>)\<rparr>"

text \<open>A session with four of five discovery questions answered, and the same one in the context phase.\<close>

definition example_metadata :: metadata where
  "example_metadata =
     \<lparr>session_id = ''mode'',
      started = ''2025-07-04T09:15:30.123Z'',
      lastUpdated = ''2025-07-04T09:18:02.456Z'',
      endedAt = None,
      status = Active,
      phase = Discovery,
      progress = \<lparr>discovery = \<lparr>answered = 4, total = 5\<rparr>, detail = \<lparr>answered = 0, total = 5\<rparr>\<rparr>,
      contextFiles = [],
      relatedFeatures = [],
      settings = Some \<lparr>discoveryQuestions = 5, expertQuestions = 5\<rparr>\<rparr>"

definition example_store :: "metadata \<Rightarrow> store" where
  "example_store m =
     \<lparr>current_requirement = Some ''2025-07-04-0915-add-dark-mode'',
      mcp_settings = None,
      index_md = None,
      folders = [''2025-07-04-0915-add-dark-mode'' \<mapsto>
                   empty_folder\<lparr>metadata_json := Some (Doc m)\<rparr>]\<rparr>"

section \<open>Properties of the slug\<close>

lemma hyphenate_in_run: "hyphenate True cs = hyphenate False (dropWhile is_space cs)"
  by (induction cs) simp_all

lemma replace_ws_runs_hyphenate: "replace_ws_runs cs = hyphenate False cs"
  by (induction cs rule: replace_ws_runs.induct) (simp_all add: hyphenate_in_run)

lemma hyphenate_chars:
  "list_all slug_char cs \<Longrightarrow> list_all (\<lambda>c. is_lower_alnum c \<or> c = CHR ''-'') (hyphenate b cs)"
  by (induction cs arbitrary: b) (auto simp: slug_char_def)

lemma list_all_take: "list_all P xs \<Longrightarrow> list_all P (take n xs)"
  by (auto simp: list_all_iff dest: in_set_takeD)

text \<open>
  The example of the specification keeps its inner hyphen: \<open>-\<close> belongs to the class
  \<open>[a-z0-9\s-]\<close>, so only the two exclamation marks are stripped.
\<close>

theorem slug_example_counterexample:
  "slug ''Add Dark-Mode!! Support'' \<noteq> ''add-darkmode-support''"
  by code_simp

text \<open>
  Claim C5, amended. The slug is the request text lower-cased, with every character
  outside \<open>[a-z0-9\s-]\<close> stripped, then every whitespace run (leading and trailing ones
  too) turned into one hyphen, then cut to 30 characters. It has at most 30 characters,
  all of them lower-case letters, digits or hyphens, and
  \<open>Add Dark-Mode!! Support\<close> gives \<open>add-dark-mode-support\<close>.
\<close>

theorem slug_follows_spec:
  "slug name = slug_spec name
   \<and> length (slug name) \<le> 30
   \<and> list_all (\<lambda>c. is_lower_alnum c \<or> c = CHR ''-'') (slug name)
   \<and> slug ''Add Dark-Mode!! Support'' = ''add-dark-mode-support''"
proof -
  have "slug name = slug_spec name"
    by (simp add: slug_def slug_spec_def replace_ws_runs_hyphenate strip_non_slug_def
        toLowerCase_def slug_char_def [abs_def])
  moreover have "length (slug name) \<le> 30"
    by (simp add: slug_def)
  moreover have "list_all (\<lambda>c. is_lower_alnum c \<or> c = CHR ''-'') (slug name)"
    unfolding slug_def replace_ws_runs_hyphenate strip_non_slug_def
    by (rule list_all_take, rule hyphenate_chars) (simp add: list_all_iff)
  moreover have "slug ''Add Dark-Mode!! Support'' = ''add-dark-mode-support''"
    by code_simp
  ultimately show ?thesis by blast
qed

section \<open>Facts about the store and the example states\<close>

lemma writeFile_folder:
  "folders st n = Some d \<Longrightarrow> writeFile n upd st = Inr (st\<lparr>folders := (folders st)(n \<mapsto> upd d)\<rparr>)"
  by (simp add: writeFile_def)

lemma session_metadata_SomeD:
  "session_metadata st n = Some m \<Longrightarrow> \<exists>d. folders st n = Some d \<and> metadata_json d = Some (Doc m)"
  by (auto simp: session_metadata_def session_file_def split: option.splits json_file.splits)

lemma loadSettings_folders: "loadSettings (st\<lparr>folders := f\<rparr>) = loadSettings st"
  by (simp add: loadSettings_def)

lemma createTimestampFolder_nonempty: "createTimestampFolder now request \<noteq> []"
  by (simp add: createTimestampFolder_def)

lemma folder_example: "createTimestampFolder ''2025-07-04T09:15:30.123Z'' ''Add dark mode''
    = ''2025-07-04-0915-add-dark-mode''"
  by code_simp

lemma active_empty: "active_session empty_store = None"
  by (simp add: active_session_def getCurrentRequirement_def empty_store_def)

lemma loadSettings_empty: "loadSettings empty_store = \<lparr>discoveryQuestions = 5, expertQuestions = 5\<rparr>"
  by (simp add: loadSettings_def empty_store_def DEFAULT_SETTINGS_def)

lemma active_example: "active_session (example_store m) = Some ''2025-07-04-0915-add-dark-mode''"
  by (simp add: active_session_def getCurrentRequirement_def example_store_def)

lemma metadata_example:
  "session_metadata (example_store m) ''2025-07-04-0915-add-dark-mode'' = Some m"
  by (simp add: session_metadata_def session_file_def example_store_def empty_folder_def)

lemma active_metadata_example: "active_metadata (example_store m) = Some m"
  by (simp add: active_metadata_def active_example metadata_example)

section \<open>Starting while a session is active\<close>

text \<open>
  Claim C3. Whatever the request text, \<open>requirements-start\<close> called while the pointer
  file names a session returns the already-active answer that names it and leaves the
  whole store as it was: no folder, no record and no pointer is written. Both builds of
  the handler do so. (A pointer file with empty content names no session.)
\<close>

theorem start_while_active:
  assumes "current_requirement st = Some cur" and "cur \<noteq> []"
  shows "requirements_start now request st = (AlreadyActive cur, st)
       \<and> requirements_start_legacy now request st = (AlreadyActive cur, st)"
  using assms
  by (simp add: requirements_start_def requirements_start_legacy_def active_session_def
      getCurrentRequirement_def)

theorem start_while_active_witness:
  "current_requirement dangling_store = Some ''2025-07-04-0915-add-dark-mode''
   \<and> ''2025-07-04-0915-add-dark-mode'' \<noteq> []
   \<and> requirements_start ''2025-07-04T09:20:00.000Z'' ''Add light mode'' dangling_store
       = (AlreadyActive ''2025-07-04-0915-add-dark-mode'', dangling_store)
   \<and> requirements_start_legacy ''2025-07-04T09:20:00.000Z'' ''Add light mode'' dangling_store
       = (AlreadyActive ''2025-07-04-0915-add-dark-mode'', dangling_store)"
proof -
  have h: "current_requirement dangling_store = Some ''2025-07-04-0915-add-dark-mode''"
    by (simp add: dangling_store_def)
  have n: "''2025-07-04-0915-add-dark-mode'' \<noteq> []" by simp
  from start_while_active [OF h n] h n show ?thesis by blast
qed

section \<open>Starting a session\<close>

text \<open>What the two start handlers return and write when no session is active.\<close>

lemma start_effect:
  assumes "active_session st = None"
  shows "requirements_start now request st =
    (let folderName = createTimestampFolder now request;
         s = loadSettings st;
         d = (case folders st folderName of None \<Rightarrow> empty_folder | Some d \<Rightarrow> d)
     in (Started folderName s,
         st\<lparr>folders := (folders st)(folderName \<mapsto> d
               \<lparr>initial_request := Some (initialRequestContent now request folderName),
                metadata_json := Some (Doc
                  \<lparr>session_id = last_segment folderName, started = now, lastUpdated = now,
                   endedAt = None, status = Active, phase = Discovery,
                   progress = \<lparr>discovery = \<lparr>answered = 0, total = discoveryQuestions s\<rparr>,
                               detail = \<lparr>answered = 0, total = expertQuestions s\<rparr>\<rparr>,
                   contextFiles = [], relatedFeatures = [], settings = Some s\<rparr>),
                discovery_questions := Some (questionsContent now s
                   (generateDiscoveryQuestions (discoveryQuestions s)))\<rparr>),
             current_requirement := Some folderName\<rparr>))"
  using assms
  by (simp add: requirements_start_def Let_def ensureDir_def writeFile_def
      setCurrentRequirement_def loadSettings_folders split: option.splits)

lemma start_legacy_effect:
  assumes "active_session st = None"
  shows "requirements_start_legacy now request st =
    (let folderName = createTimestampFolder now request;
         d = (case folders st folderName of None \<Rightarrow> empty_folder | Some d \<Rightarrow> d)
     in (StartedLegacy folderName,
         st\<lparr>folders := (folders st)(folderName \<mapsto> d
               \<lparr>initial_request := Some (initialRequestContent now request folderName),
                metadata_json := Some (Doc
                  \<lparr>session_id = last_segment folderName, started = now, lastUpdated = now,
                   endedAt = None, status = Active, phase = Discovery,
                   progress = \<lparr>discovery = \<lparr>answered = 0, total = 5\<rparr>,
                               detail = \<lparr>answered = 0, total = 0\<rparr>\<rparr>,
                   contextFiles = [], relatedFeatures = [], settings = None\<rparr>)\<rparr>),
             current_requirement := Some folderName\<rparr>))"
  using assms
  by (simp add: requirements_start_legacy_def Let_def ensureDir_def writeFile_def
      setCurrentRequirement_def split: option.splits)

lemma start_effect_progress:
  assumes "active_session st = None"
  shows "\<exists>m. active_metadata (snd (requirements_start now request st)) = Some m
     \<and> progress m =
         \<lparr>discovery = \<lparr>answered = 0, total = discoveryQuestions (loadSettings st)\<rparr>,
          detail = \<lparr>answered = 0, total = expertQuestions (loadSettings st)\<rparr>\<rparr>"
  by (simp add: start_effect [OF assms] Let_def active_metadata_def active_session_def
      getCurrentRequirement_def createTimestampFolder_nonempty session_file_def
      session_metadata_def)

text \<open>
  The earlier build of the start handler writes the detail total 0 where the loaded
  settings give 5 expert questions.
\<close>

theorem start_legacy_totals_counterexample:
  "fst (requirements_start_legacy ''2025-07-04T09:15:30.123Z'' ''Add dark mode'' empty_store)
     = StartedLegacy ''2025-07-04-0915-add-dark-mode''
   \<and> map_option (total \<circ> detail \<circ> progress)
        (session_metadata
          (snd (requirements_start_legacy ''2025-07-04T09:15:30.123Z'' ''Add dark mode'' empty_store))
          ''2025-07-04-0915-add-dark-mode'') = Some 0
   \<and> expertQuestions (loadSettings empty_store) = 5"
  by (simp add: start_legacy_effect [OF active_empty] folder_example loadSettings_empty
      session_metadata_def session_file_def Let_def)

text \<open>
  Claim C4, amended. Every successful start creates a session with phase
  \<open>discovery\<close>, status \<open>active\<close> and both answered counters 0, writes the initial
  request record and the metadata record, and registers the session as active. In the
  handler of the build with settings the discovery total is the loaded
  \<open>discoveryQuestions\<close>, the detail total is the loaded \<open>expertQuestions\<close>, and the
  loaded settings are kept in the metadata; in the handler of the earlier build, which has
  no settings, the totals are the constants 5 and 0.
\<close>

theorem start_initialises_session:
  assumes "active_session st = None"
  shows "(\<exists>st' m. requirements_start now request st
              = (Started (createTimestampFolder now request) (loadSettings st), st')
           \<and> active_session st' = Some (createTimestampFolder now request)
           \<and> session_file st' (createTimestampFolder now request) initial_request
               = Some (initialRequestContent now request (createTimestampFolder now request))
           \<and> session_metadata st' (createTimestampFolder now request) = Some m
           \<and> phase m = Discovery \<and> status m = Active
           \<and> progress m =
               \<lparr>discovery = \<lparr>answered = 0, total = discoveryQuestions (loadSettings st)\<rparr>,
                detail = \<lparr>answered = 0, total = expertQuestions (loadSettings st)\<rparr>\<rparr>
           \<and> settings m = Some (loadSettings st))
       \<and> (\<exists>st' m. requirements_start_legacy now request st
              = (StartedLegacy (createTimestampFolder now request), st')
           \<and> active_session st' = Some (createTimestampFolder now request)
           \<and> session_file st' (createTimestampFolder now request) initial_request
               = Some (initialRequestContent now request (createTimestampFolder now request))
           \<and> session_metadata st' (createTimestampFolder now request) = Some m
           \<and> phase m = Discovery \<and> status m = Active
           \<and> progress m =
               \<lparr>discovery = \<lparr>answered = 0, total = 5\<rparr>, detail = \<lparr>answered = 0, total = 0\<rparr>\<rparr>
           \<and> settings m = None)"
proof
  show "\<exists>st' m. requirements_start now request st
              = (Started (createTimestampFolder now request) (loadSettings st), st')
           \<and> active_session st' = Some (createTimestampFolder now request)
           \<and> session_file st' (createTimestampFolder now request) initial_request
               = Some (initialRequestContent now request (createTimestampFolder now request))
           \<and> session_metadata st' (createTimestampFolder now request) = Some m
           \<and> phase m = Discovery \<and> status m = Active
           \<and> progress m =
               \<lparr>discovery = \<lparr>answered = 0, total = discoveryQuestions (loadSettings st)\<rparr>,
                detail = \<lparr>answered = 0, total = expertQuestions (loadSettings st)\<rparr>\<rparr>
           \<and> settings m = Some (loadSettings st)"
    by (simp add: start_effect [OF assms] Let_def active_session_def getCurrentRequirement_def
        createTimestampFolder_nonempty session_file_def session_metadata_def)
next
  show "\<exists>st' m. requirements_start_legacy now request st
              = (StartedLegacy (createTimestampFolder now request), st')
           \<and> active_session st' = Some (createTimestampFolder now request)
           \<and> session_file st' (createTimestampFolder now request) initial_request
               = Some (initialRequestContent now request (createTimestampFolder now request))
           \<and> session_metadata st' (createTimestampFolder now request) = Some m
           \<and> phase m = Discovery \<and> status m = Active
           \<and> progress m =
               \<lparr>discovery = \<lparr>answered = 0, total = 5\<rparr>, detail = \<lparr>answered = 0, total = 0\<rparr>\<rparr>
           \<and> settings m = None"
    by (simp add: start_legacy_effect [OF assms] Let_def active_session_def
        getCurrentRequirement_def createTimestampFolder_nonempty session_file_def
        session_metadata_def)
qed

theorem start_initialises_session_witness:
  "active_session empty_store = None
   \<and> fst (requirements_start ''2025-07-04T09:15:30.123Z'' ''Add dark mode'' empty_store)
       = Started ''2025-07-04-0915-add-dark-mode'' \<lparr>discoveryQuestions = 5, expertQuestions = 5\<rparr>
   \<and> fst (requirements_start_legacy ''2025-07-04T09:15:30.123Z'' ''Add dark mode'' empty_store)
       = StartedLegacy ''2025-07-04-0915-add-dark-mode''"
  using start_initialises_session [OF active_empty, where now = "''2025-07-04T09:15:30.123Z''"
      and request = "''Add dark mode''"] active_empty
  by (auto simp: folder_example loadSettings_empty)

section \<open>A pointer to a session without metadata\<close>

text \<open>
  With the pointer naming a session whose metadata file is gone, the status tool does not
  answer that no session is active, and the pointer is still there afterwards.
\<close>

theorem status_dangling_counterexample:
  "fst (requirements_status ''2025-07-04T09:20:00.000Z'' Decline dangling_store) \<noteq> NoActiveSession
   \<and> current_requirement (snd (requirements_status ''2025-07-04T09:20:00.000Z'' Decline dangling_store))
        = Some ''2025-07-04-0915-add-dark-mode''"
  by (simp add: requirements_status_def active_session_def getCurrentRequirement_def
      session_file_def dangling_store_def empty_store_def)

text \<open>
  Claim C6, amended. When the pointer names a session whose metadata file is missing,
  the status tool (in both builds) returns the error result that says the metadata file
  was not found for that session, and leaves the pointer and every file as they were.
\<close>

theorem status_metadata_missing:
  assumes "active_session st = Some cur" and "session_file st cur metadata_json = None"
  shows "requirements_status now el st = (MetadataNotFound cur, st)
       \<and> requirements_status_legacy st = (MetadataNotFound cur, st)
       \<and> isError (MetadataNotFound cur)"
  using assms by (simp add: requirements_status_def requirements_status_legacy_def isError_def)

theorem status_metadata_missing_witness:
  "active_session dangling_store = Some ''2025-07-04-0915-add-dark-mode''
   \<and> session_file dangling_store ''2025-07-04-0915-add-dark-mode'' metadata_json = None
   \<and> requirements_status ''2025-07-04T09:20:00.000Z'' Decline dangling_store
        = (MetadataNotFound ''2025-07-04-0915-add-dark-mode'', dangling_store)"
proof -
  have a: "active_session dangling_store = Some ''2025-07-04-0915-add-dark-mode''"
    by (simp add: active_session_def getCurrentRequirement_def dangling_store_def)
  have b: "session_file dangling_store ''2025-07-04-0915-add-dark-mode'' metadata_json = None"
    by (simp add: session_file_def dangling_store_def empty_store_def)
  from status_metadata_missing [OF a b] a b show ?thesis by blast
qed

section \<open>One step of the interview\<close>

text \<open>Each branch of the status tool, on the metadata record of the session it works on.\<close>

lemma answer_discovery_effect:
  assumes "session_metadata st cur = Some m" and "phase m = Discovery"
    and "answered (discovery (progress m)) < total (discovery (progress m))"
  shows "\<exists>m'. current_requirement (snd (answer_discovery now el cur m st)) = current_requirement st
            \<and> session_metadata (snd (answer_discovery now el cur m st)) cur = Some m'
            \<and> interview_step m m'"
proof -
  from assms(1) obtain d where d: "folders st cur = Some d" "metadata_json d = Some (Doc m)"
    by (blast dest: session_metadata_SomeD)
  have same: "interview_step m m" by (simp add: interview_step_def)
  show ?thesis
    using assms d same
    by (auto simp: answer_discovery_def Let_def writeFile_folder session_metadata_def
        session_file_def interview_step_def
        split: option.splits)
qed

lemma leave_context_effect:
  assumes "session_metadata st cur = Some m" and "phase m = Context"
  shows "\<exists>m'. current_requirement (snd (leave_context now cur m st)) = current_requirement st
            \<and> session_metadata (snd (leave_context now cur m st)) cur = Some m'
            \<and> interview_step m m' \<and> phase m' = Detail"
proof -
  from assms(1) obtain d where d: "folders st cur = Some d" "metadata_json d = Some (Doc m)"
    by (blast dest: session_metadata_SomeD)
  show ?thesis
    using assms d
    by (simp add: leave_context_def writeFile_folder session_metadata_def session_file_def
        interview_step_def)
qed

lemma answer_detail_effect:
  assumes "session_metadata st cur = Some m" and "phase m = Detail"
    and "answered (detail (progress m)) < total (detail (progress m))"
  shows "\<exists>m'. current_requirement (snd (answer_detail now el cur m st)) = current_requirement st
            \<and> session_metadata (snd (answer_detail now el cur m st)) cur = Some m'
            \<and> interview_step m m'"
proof -
  from assms(1) obtain d where d: "folders st cur = Some d" "metadata_json d = Some (Doc m)"
    by (blast dest: session_metadata_SomeD)
  show ?thesis
    using assms d
    by (auto simp: answer_detail_def Let_def writeFile_folder session_metadata_def
        session_file_def interview_step_def
        split: option.splits)
qed

lemma status_effect:
  assumes a: "active_session st = Some cur" and m: "session_metadata st cur = Some m"
  shows "\<exists>m'. active_session (snd (requirements_status now el st)) = Some cur
            \<and> session_metadata (snd (requirements_status now el st)) cur = Some m'
            \<and> interview_step m m'"
proof -
  from m have f: "session_file st cur metadata_json = Some (Doc m)"
    by (auto simp: session_metadata_def split: option.splits json_file.splits)
  have same: "interview_step m m" by (simp add: interview_step_def)
  have ptr: "current_requirement st' = current_requirement st \<Longrightarrow> active_session st' = Some cur" for st'
    using a by (simp add: active_session_def getCurrentRequirement_def)
  consider (disc) "phase m = Discovery"
        "answered (discovery (progress m)) < total (discovery (progress m))"
    | (ctx) "phase m = Context"
    | (det) "\<not> (phase m = Discovery
        \<and> answered (discovery (progress m)) < total (discovery (progress m)))"
        "phase m = Detail" "answered (detail (progress m)) < total (detail (progress m))"
    | (rest) "\<not> (phase m = Discovery
        \<and> answered (discovery (progress m)) < total (discovery (progress m)))"
        "phase m \<noteq> Context"
        "\<not> (phase m = Detail \<and> answered (detail (progress m)) < total (detail (progress m)))"
    by blast
  then show ?thesis
  proof cases
    case disc
    then have "requirements_status now el st = answer_discovery now el cur m st"
      using a f by (simp add: requirements_status_def)
    with answer_discovery_effect [OF m disc, where now = now and el = el] ptr show ?thesis by auto
  next
    case ctx
    then have "requirements_status now el st = leave_context now cur m st"
      using a f by (simp add: requirements_status_def)
    with leave_context_effect [OF m ctx, where now = now] ptr show ?thesis by auto
  next
    case det
    then have "requirements_status now el st = answer_detail now el cur m st"
      using a f by (simp add: requirements_status_def)
    with answer_detail_effect [OF m det(2,3), where now = now and el = el] ptr show ?thesis by auto
  next
    case rest
    then have "requirements_status now el st = (SessionStatus m, st)"
      using a f by (auto simp: requirements_status_def)
    with a m same show ?thesis by auto
  qed
qed

lemma status_leaves_context:
  assumes a: "active_session st = Some cur" and m: "session_metadata st cur = Some m"
    and c: "phase m = Context"
  shows "\<exists>m'. session_metadata (snd (requirements_status now el st)) cur = Some m'
            \<and> phase m' = Detail"
proof -
  from m have f: "session_file st cur metadata_json = Some (Doc m)"
    by (auto simp: session_metadata_def split: option.splits json_file.splits)
  from c have "requirements_status now el st = leave_context now cur m st"
    using a f by (simp add: requirements_status_def)
  with leave_context_effect [OF m c, where now = now] show ?thesis by auto
qed

lemma interview_step_trans_facts:
  assumes "interview_step m m'"
  shows "answered (discovery (progress m)) \<le> answered (discovery (progress m'))"
    and "answered (detail (progress m)) \<le> answered (detail (progress m'))"
    and "total (discovery (progress m')) = total (discovery (progress m))"
    and "total (detail (progress m')) = total (detail (progress m))"
    and "answered (discovery (progress m)) \<le> total (discovery (progress m))
          \<Longrightarrow> answered (discovery (progress m')) \<le> total (discovery (progress m'))"
    and "answered (detail (progress m)) \<le> total (detail (progress m))
          \<Longrightarrow> answered (detail (progress m')) \<le> total (detail (progress m'))"
    and "phase m' = phase m \<or> phase_edge m m'"
  using assms by (auto simp: interview_step_def phase_edge_def)

lemma advance_all_effect:
  assumes "active_metadata st = Some m"
  shows "\<exists>m'. active_metadata (advance_all calls st) = Some m'
     \<and> answered (discovery (progress m)) \<le> answered (discovery (progress m'))
     \<and> answered (detail (progress m)) \<le> answered (detail (progress m'))
     \<and> total (discovery (progress m')) = total (discovery (progress m))
     \<and> total (detail (progress m')) = total (detail (progress m))
     \<and> (answered (discovery (progress m)) \<le> total (discovery (progress m))
          \<longrightarrow> answered (discovery (progress m')) \<le> total (discovery (progress m')))
     \<and> (answered (detail (progress m)) \<le> total (detail (progress m))
          \<longrightarrow> answered (detail (progress m')) \<le> total (detail (progress m')))"
  using assms
proof (induction calls arbitrary: st m)
  case Nil
  then show ?case by simp
next
  case (Cons call calls)
  obtain now el where call: "call = (now, el)" by (cases call)
  from Cons.prems obtain cur where cur: "active_session st = Some cur"
      and m: "session_metadata st cur = Some m"
    by (auto simp: active_metadata_def split: option.splits)
  from status_effect [OF cur m, where now = now and el = el] obtain m1
    where a1: "active_session (snd (requirements_status now el st)) = Some cur"
      and m1: "session_metadata (snd (requirements_status now el st)) cur = Some m1"
      and step: "interview_step m m1"
    by blast
  from a1 m1 have "active_metadata (snd (requirements_status now el st)) = Some m1"
    by (simp add: active_metadata_def)
  from Cons.IH [OF this] obtain m' where
    fin: "active_metadata (advance_all calls (snd (requirements_status now el st))) = Some m'"
    and r: "answered (discovery (progress m1)) \<le> answered (discovery (progress m'))"
      "answered (detail (progress m1)) \<le> answered (detail (progress m'))"
      "total (discovery (progress m')) = total (discovery (progress m1))"
      "total (detail (progress m')) = total (detail (progress m1))"
      "answered (discovery (progress m1)) \<le> total (discovery (progress m1))
          \<longrightarrow> answered (discovery (progress m')) \<le> total (discovery (progress m'))"
      "answered (detail (progress m1)) \<le> total (detail (progress m1))
          \<longrightarrow> answered (detail (progress m')) \<le> total (detail (progress m'))"
    by blast
  note s = interview_step_trans_facts [OF step]
  from fin have "active_metadata (advance_all (call # calls) st) = Some m'"
    by (simp add: call)
  moreover from r s have
    "answered (discovery (progress m)) \<le> answered (discovery (progress m'))"
    "answered (detail (progress m)) \<le> answered (detail (progress m'))"
    "total (discovery (progress m')) = total (discovery (progress m))"
    "total (detail (progress m')) = total (detail (progress m))"
    "answered (discovery (progress m)) \<le> total (discovery (progress m))
          \<longrightarrow> answered (discovery (progress m')) \<le> total (discovery (progress m'))"
    "answered (detail (progress m)) \<le> total (detail (progress m))
          \<longrightarrow> answered (detail (progress m')) \<le> total (detail (progress m'))"
    by auto
  ultimately show ?case by blast
qed

lemma end_effect:
  assumes a: "active_session st = Some cur" and m: "session_metadata st cur = Some m"
  shows "case session_metadata (snd (requirements_end now date action st)) cur of
           None \<Rightarrow> action = EndDelete
         | Some m' \<Rightarrow> phase m' = phase m"
proof -
  from m obtain d where d: "folders st cur = Some d" "metadata_json d = Some (Doc m)"
    by (blast dest: session_metadata_SomeD)
  show ?thesis
    using a d
    by (simp add: requirements_end_def session_file_def writeFile_folder Let_def
        clearCurrentRequirement_def session_metadata_def)
qed

text \<open>
  The interview run of the specification: a session started on an empty store, with the
  default counts, is complete after eleven calls of the status tool (five discovery
  answers, the step out of the context phase, five expert answers).
\<close>

lemma interview_scenario:
  "map_option (\<lambda>m. (phase m, status m, answered (discovery (progress m)), answered (detail (progress m))))
     (active_metadata (advance_all (replicate 11 (''2025-07-04T09:20:00.000Z'', Decline))
        (snd (requirements_start ''2025-07-04T09:15:30.123Z'' ''Add dark mode'' empty_store))))
   = Some (Complete, Completed, 5, 5)"
  by code_simp

section \<open>Progress counters\<close>

text \<open>
  Claim C1. Over any sequence of calls of the status tool, whatever the clock and the
  client answer, the active session keeps a metadata record, its two answered counters
  never decrease, its totals stay fixed, and a counter that is at most its total before
  the calls is at most its total after them. A session fresh from
  \<open>requirements-start\<close> begins at 0 of its total, so with loaded counts that are not
  negative both counters stay between 0 and their totals for good.
\<close>

theorem advance_progress_monotone_bounded:
  "(active_metadata st = Some m \<longrightarrow>
      (\<exists>m'. active_metadata (advance_all calls st) = Some m'
         \<and> answered (discovery (progress m)) \<le> answered (discovery (progress m'))
         \<and> answered (detail (progress m)) \<le> answered (detail (progress m'))
         \<and> total (discovery (progress m')) = total (discovery (progress m))
         \<and> total (detail (progress m')) = total (detail (progress m))
         \<and> (answered (discovery (progress m)) \<le> total (discovery (progress m))
              \<longrightarrow> answered (discovery (progress m')) \<le> total (discovery (progress m')))
         \<and> (answered (detail (progress m)) \<le> total (detail (progress m))
              \<longrightarrow> answered (detail (progress m')) \<le> total (detail (progress m')))))
   \<and> (active_session st = None
        \<and> 0 \<le> discoveryQuestions (loadSettings st) \<and> 0 \<le> expertQuestions (loadSettings st) \<longrightarrow>
      (\<exists>m'. active_metadata (advance_all calls (snd (requirements_start now request st))) = Some m'
         \<and> 0 \<le> answered (discovery (progress m'))
         \<and> answered (discovery (progress m')) \<le> total (discovery (progress m'))
         \<and> total (discovery (progress m')) = discoveryQuestions (loadSettings st)
         \<and> 0 \<le> answered (detail (progress m'))
         \<and> answered (detail (progress m')) \<le> total (detail (progress m'))
         \<and> total (detail (progress m')) = expertQuestions (loadSettings st)))"
proof (intro conjI impI)
  assume "active_metadata st = Some m"
  from advance_all_effect [OF this]
  show "\<exists>m'. active_metadata (advance_all calls st) = Some m'
         \<and> answered (discovery (progress m)) \<le> answered (discovery (progress m'))
         \<and> answered (detail (progress m)) \<le> answered (detail (progress m'))
         \<and> total (discovery (progress m')) = total (discovery (progress m))
         \<and> total (detail (progress m')) = total (detail (progress m))
         \<and> (answered (discovery (progress m)) \<le> total (discovery (progress m))
              \<longrightarrow> answered (discovery (progress m')) \<le> total (discovery (progress m')))
         \<and> (answered (detail (progress m)) \<le> total (detail (progress m))
              \<longrightarrow> answered (detail (progress m')) \<le> total (detail (progress m')))" .
next
  assume h: "active_session st = None
        \<and> 0 \<le> discoveryQuestions (loadSettings st) \<and> 0 \<le> expertQuestions (loadSettings st)"
  from h have n: "active_session st = None" by simp
  from start_effect_progress [OF n, where now = now and request = request] obtain m0 where
    m0: "active_metadata (snd (requirements_start now request st)) = Some m0"
    and p0: "progress m0 =
         \<lparr>discovery = \<lparr>answered = 0, total = discoveryQuestions (loadSettings st)\<rparr>,
          detail = \<lparr>answered = 0, total = expertQuestions (loadSettings st)\<rparr>\<rparr>"
    by blast
  from advance_all_effect [OF m0, of calls] obtain m' where
    "active_metadata (advance_all calls (snd (requirements_start now request st))) = Some m'"
    "answered (discovery (progress m0)) \<le> answered (discovery (progress m'))"
    "answered (detail (progress m0)) \<le> answered (detail (progress m'))"
    "total (discovery (progress m')) = total (discovery (progress m0))"
    "total (detail (progress m')) = total (detail (progress m0))"
    "answered (discovery (progress m0)) \<le> total (discovery (progress m0))
              \<longrightarrow> answered (discovery (progress m')) \<le> total (discovery (progress m'))"
    "answered (detail (progress m0)) \<le> total (detail (progress m0))
              \<longrightarrow> answered (detail (progress m')) \<le> total (detail (progress m'))"
    by blast
  with p0 h
  show "\<exists>m'. active_metadata (advance_all calls (snd (requirements_start now request st))) = Some m'
         \<and> 0 \<le> answered (discovery (progress m'))
         \<and> answered (discovery (progress m')) \<le> total (discovery (progress m'))
         \<and> total (discovery (progress m')) = discoveryQuestions (loadSettings st)
         \<and> 0 \<le> answered (detail (progress m'))
         \<and> answered (detail (progress m')) \<le> total (detail (progress m'))
         \<and> total (detail (progress m')) = expertQuestions (loadSettings st)"
    by auto
qed

theorem advance_progress_monotone_bounded_witness:
  "active_metadata (example_store example_metadata) = Some example_metadata
   \<and> answered (discovery (progress example_metadata)) \<le> total (discovery (progress example_metadata))
   \<and> answered (detail (progress example_metadata)) \<le> total (detail (progress example_metadata))
   \<and> (\<exists>m'. active_metadata (advance_all
               [(''2025-07-04T09:20:00.000Z'', Decline), (''2025-07-04T09:21:00.000Z'', Accept (Some False)),
                (''2025-07-04T09:22:00.000Z'', ElicitFails)]
               (example_store example_metadata)) = Some m'
         \<and> 4 \<le> answered (discovery (progress m')) \<and> answered (discovery (progress m')) \<le> 5
         \<and> 0 \<le> answered (detail (progress m')) \<and> answered (detail (progress m')) \<le> 5)
   \<and> active_session empty_store = None
   \<and> 0 \<le> discoveryQuestions (loadSettings empty_store)
   \<and> 0 \<le> expertQuestions (loadSettings empty_store)
   \<and> (\<exists>m'. active_metadata (advance_all
               [(''2025-07-04T09:20:00.000Z'', Decline), (''2025-07-04T09:21:00.000Z'', Accept (Some False))]
               (snd (requirements_start ''2025-07-04T09:15:30.123Z'' ''Add dark mode'' empty_store)))
             = Some m'
         \<and> answered (discovery (progress m')) \<le> 5 \<and> answered (detail (progress m')) \<le> 5)"
proof -
  have e: "answered (discovery (progress example_metadata)) = 4"
      "total (discovery (progress example_metadata)) = 5"
      "answered (detail (progress example_metadata)) = 0"
      "total (detail (progress example_metadata)) = 5"
    by (simp_all add: example_metadata_def)
  note A = advance_progress_monotone_bounded [THEN conjunct1, rule_format]
  note B = advance_progress_monotone_bounded [THEN conjunct2, rule_format]
  from A [where st = "example_store example_metadata" and m = example_metadata,
      OF active_metadata_example, where calls =
      "[(''2025-07-04T09:20:00.000Z'', Decline), (''2025-07-04T09:21:00.000Z'', Accept (Some False)),
        (''2025-07-04T09:22:00.000Z'', ElicitFails)]"]
  have a: "\<exists>m'. active_metadata (advance_all
               [(''2025-07-04T09:20:00.000Z'', Decline), (''2025-07-04T09:21:00.000Z'', Accept (Some False)),
                (''2025-07-04T09:22:00.000Z'', ElicitFails)]
               (example_store example_metadata)) = Some m'
         \<and> 4 \<le> answered (discovery (progress m')) \<and> answered (discovery (progress m')) \<le> 5
         \<and> 0 \<le> answered (detail (progress m')) \<and> answered (detail (progress m')) \<le> 5"
    using e by auto
  have h: "active_session empty_store = None
        \<and> 0 \<le> discoveryQuestions (loadSettings empty_store)
        \<and> 0 \<le> expertQuestions (loadSettings empty_store)"
    by (simp add: active_empty loadSettings_empty)
  from B [OF h, where calls =
      "[(''2025-07-04T09:20:00.000Z'', Decline), (''2025-07-04T09:21:00.000Z'', Accept (Some False))]"
      and now = "''2025-07-04T09:15:30.123Z''" and request = "''Add dark mode''"]
  have b: "\<exists>m'. active_metadata (advance_all
               [(''2025-07-04T09:20:00.000Z'', Decline), (''2025-07-04T09:21:00.000Z'', Accept (Some False))]
               (snd (requirements_start ''2025-07-04T09:15:30.123Z'' ''Add dark mode'' empty_store)))
             = Some m'
         \<and> answered (discovery (progress m')) \<le> 5 \<and> answered (detail (progress m')) \<le> 5"
    by (auto simp: loadSettings_empty)
  from a b e active_metadata_example [of example_metadata] active_empty
  show ?thesis by (simp add: loadSettings_empty)
qed

section \<open>The phase chain\<close>

text \<open>
  Claim C2. Whatever tool is called while a session is active, the phase of its metadata
  record stays as it is or moves along one edge of the chain: from \<open>discovery\<close> to
  \<open>context\<close>, and then the discovery counter equals its total; from \<open>context\<close> to
  \<open>detail\<close>; from \<open>detail\<close> to \<open>complete\<close>, and then the detail counter equals its
  total. The record disappears only when the session is deleted. From \<open>context\<close> a call
  of the status tool always moves to \<open>detail\<close>.
\<close>

theorem phase_follows_chain:
  assumes a: "active_session st = Some cur" and m: "session_metadata st cur = Some m"
  shows "(case session_metadata (snd (exec clock c st)) cur of
            None \<Rightarrow> c = End EndDelete
          | Some m' \<Rightarrow> phase m' = phase m \<or> phase_edge m m')
       \<and> (phase m = Context \<longrightarrow>
            (\<exists>m'. session_metadata (snd (exec clock (Status el) st)) cur = Some m'
                  \<and> phase m' = Detail))"
proof
  obtain now date where clock: "clock = (now, date)" by (cases clock)
  show "case session_metadata (snd (exec clock c st)) cur of
            None \<Rightarrow> c = End EndDelete
          | Some m' \<Rightarrow> phase m' = phase m \<or> phase_edge m m'"
  proof (cases c)
    case (Start request)
    with a m clock show ?thesis by (simp add: requirements_start_def)
  next
    case (StartLegacy request)
    with a m clock show ?thesis by (simp add: requirements_start_legacy_def)
  next
    case (Status el')
    from status_effect [OF a m, where now = now and el = el'] obtain m'
      where "session_metadata (snd (requirements_status now el' st)) cur = Some m'"
        and "interview_step m m'"
      by blast
    with Status clock show ?thesis
      by (simp add: interview_step_trans_facts(7))
  next
    case StatusLegacy
    from m have "session_file st cur metadata_json = Some (Doc m)"
      by (auto simp: session_metadata_def split: option.splits json_file.splits)
    with a m StatusLegacy clock show ?thesis by (simp add: requirements_status_legacy_def)
  next
    case (End action)
    from end_effect [OF a m, where now = now and date = date and action = action] End clock
    show ?thesis
      by (auto split: option.splits)
  next
    case (Settings action d e)
    with m clock show ?thesis
      by (cases action)
        (simp_all add: requirements_settings_def saveSettings_def Let_def session_metadata_def
          session_file_def)
  qed
next
  obtain now date where clock: "clock = (now, date)" by (cases clock)
  show "phase m = Context \<longrightarrow>
            (\<exists>m'. session_metadata (snd (exec clock (Status el) st)) cur = Some m'
                  \<and> phase m' = Detail)"
    using status_leaves_context [OF a m, where now = now and el = el] clock by simp
qed

theorem phase_follows_chain_witness:
  "active_session (example_store (example_metadata\<lparr>phase := Context\<rparr>))
     = Some ''2025-07-04-0915-add-dark-mode''
   \<and> session_metadata (example_store (example_metadata\<lparr>phase := Context\<rparr>))
       ''2025-07-04-0915-add-dark-mode'' = Some (example_metadata\<lparr>phase := Context\<rparr>)
   \<and> phase (example_metadata\<lparr>phase := Context\<rparr>) = Context
   \<and> (\<exists>m'. session_metadata
              (snd (exec (''2025-07-04T09:20:00.000Z'', ''7/4/2025'') (Status Decline)
                 (example_store (example_metadata\<lparr>phase := Context\<rparr>))))
              ''2025-07-04-0915-add-dark-mode'' = Some m'
          \<and> phase m' = Detail
          \<and> phase_edge (example_metadata\<lparr>phase := Context\<rparr>) m')"
proof -
  let ?M = "example_metadata\<lparr>phase := Context\<rparr>"
  have c: "phase ?M = Context" by simp
  from phase_follows_chain [where m = ?M and clock = "(''2025-07-04T09:20:00.000Z'', ''7/4/2025'')"
        and c = "Status Decline" and el = Decline, OF active_example metadata_example] c
  have "\<exists>m'. session_metadata
              (snd (exec (''2025-07-04T09:20:00.000Z'', ''7/4/2025'') (Status Decline)
                 (example_store ?M))) ''2025-07-04-0915-add-dark-mode'' = Some m'
          \<and> phase m' = Detail \<and> phase_edge ?M m'"
    by auto
  with active_example [of ?M] metadata_example [of ?M] c show ?thesis by blast
qed

section \<open>Saving and loading settings\<close>

lemma loadSettings_saveSettings: "loadSettings (saveSettings s st) = s"
  by (simp add: loadSettings_def saveSettings_def)

text \<open>
  \<open>saveSettings\<close> persists counts outside 1 to 20, and so does the settings tool when the
  stored record already holds one: setting only the expert count writes the stored
  discovery count of 50 back.
\<close>

theorem save_unvalidated_counterexample:
  "mcp_settings (saveSettings \<lparr>discoveryQuestions = 50, expertQuestions = 0\<rparr> empty_store)
     = Some (Doc \<lparr>stored_discoveryQuestions = Some 50, stored_expertQuestions = Some 0\<rparr>)
   \<and> requirements_settings ActSet None (Some 3) oversized_store
     = (SettingsUpdated \<lparr>discoveryQuestions = 50, expertQuestions = 3\<rparr>,
        oversized_store\<lparr>mcp_settings :=
          Some (Doc \<lparr>stored_discoveryQuestions = Some 50, stored_expertQuestions = Some 3\<rparr>)\<rparr>)"
  by (simp add: saveSettings_def requirements_settings_def loadSettings_def oversized_store_def
      empty_store_def DEFAULT_SETTINGS_def)

text \<open>
  Claim C7, amended. The range 1 to 20 is checked by the input schema of the settings
  tool, on the counts the caller supplies, and not by \<open>saveSettings\<close>. A set call whose
  arguments pass the schema persists, for each count, the supplied value (then within 1
  to 20) or, when none is supplied, the value loaded before; it never ends in an
  invalid-settings error, and what is stored is exactly the record passed to
  \<open>saveSettings\<close>.
\<close>

theorem settings_set_checked_by_schema:
  assumes "count_schema d" and "count_schema e"
  shows "\<exists>s. requirements_settings ActSet d e st = (SettingsUpdated s, saveSettings s st)
           \<and> discoveryQuestions s = (case d of Some v \<Rightarrow> v | None \<Rightarrow> discoveryQuestions (loadSettings st))
           \<and> expertQuestions s = (case e of Some v \<Rightarrow> v | None \<Rightarrow> expertQuestions (loadSettings st))
           \<and> (d \<noteq> None \<longrightarrow> 1 \<le> discoveryQuestions s \<and> discoveryQuestions s \<le> 20)
           \<and> (e \<noteq> None \<longrightarrow> 1 \<le> expertQuestions s \<and> expertQuestions s \<le> 20)
           \<and> mcp_settings (saveSettings s st)
               = Some (Doc \<lparr>stored_discoveryQuestions = Some (discoveryQuestions s),
                             stored_expertQuestions = Some (expertQuestions s)\<rparr>)"
  using assms
  by (auto simp: requirements_settings_def saveSettings_def count_schema_def Let_def
      split: option.splits)

theorem settings_set_checked_by_schema_witness:
  "count_schema (Some 3) \<and> count_schema None
   \<and> requirements_settings ActSet (Some 3) None oversized_store
       = (SettingsUpdated \<lparr>discoveryQuestions = 3, expertQuestions = 5\<rparr>,
          saveSettings \<lparr>discoveryQuestions = 3, expertQuestions = 5\<rparr> oversized_store)"
proof -
  have a: "count_schema (Some 3)" and b: "count_schema None"
    by (simp_all add: count_schema_def)
  from settings_set_checked_by_schema [OF a b, of oversized_store]
  obtain s where "requirements_settings ActSet (Some 3) None oversized_store
        = (SettingsUpdated s, saveSettings s oversized_store)"
      and "discoveryQuestions s = 3"
      and "expertQuestions s = expertQuestions (loadSettings oversized_store)"
    by auto
  moreover have "expertQuestions (loadSettings oversized_store) = 5"
    by (simp add: loadSettings_def oversized_store_def DEFAULT_SETTINGS_def)
  ultimately have "requirements_settings ActSet (Some 3) None oversized_store
       = (SettingsUpdated \<lparr>discoveryQuestions = 3, expertQuestions = 5\<rparr>,
          saveSettings \<lparr>discoveryQuestions = 3, expertQuestions = 5\<rparr> oversized_store)"
    by (cases s) simp
  with a b show ?thesis by blast
qed

text \<open>
  Claim C8. Whatever is stored before, a set call that supplies only the discovery count
  3, followed by a get call, returns the discovery count 3 and the expert count that a
  get call returned before the set.
\<close>

theorem settings_roundtrip:
  "requirements_settings ActGet None None (snd (requirements_settings ActSet (Some 3) None st))
     = (CurrentSettings \<lparr>discoveryQuestions = 3,
                         expertQuestions = expertQuestions (loadSettings st)\<rparr>,
        snd (requirements_settings ActSet (Some 3) None st))
   \<and> fst (requirements_settings ActGet None None st) = CurrentSettings (loadSettings st)"
  by (simp add: requirements_settings_def loadSettings_saveSettings Let_def)

end
